theory Spec2Isabelle
  imports Complex_Main "HOL-Library.Word" "HOL-Library.Sublist"
begin

unbundle bit_operations_syntax

section \<open>JavaScript values and operators used by the sources\<close>

text \<open>
  The bitwise operator \<^verbatim>\<open>&\<close> of JavaScript works on the 32-bit two's complement reading of
  its operands, so flag sets are \<open>32 word\<close>. The operators \<^verbatim>\<open>||\<close> and \<^verbatim>\<open>&&\<close> return one of
  their operands: \<^verbatim>\<open>a || b\<close> is \<open>a\<close> when \<open>a\<close> is truthy and \<open>b\<close> otherwise, \<^verbatim>\<open>a && b\<close> is
  \<open>a\<close> when \<open>a\<close> is falsy and \<open>b\<close> otherwise. A number is truthy iff it is not zero, which
  is what \<^verbatim>\<open>Boolean(n)\<close> returns.
\<close>

type_synonym flagset = "32 word"

definition js_or :: "flagset \<Rightarrow> flagset \<Rightarrow> flagset" where
  "js_or a b = (if a \<noteq> 0 then a else b)"

definition js_and :: "flagset \<Rightarrow> flagset \<Rightarrow> flagset" where
  "js_and a b = (if a \<noteq> 0 then b else a)"

definition Boolean :: "flagset \<Rightarrow> bool" where
  "Boolean n = (n \<noteq> 0)"

text \<open>
  A thrown exception is a value of \<open>error\<close>: \<open>Error msg\<close> is \<^verbatim>\<open>new Error(msg)\<close>, and
  \<open>TypeError\<close> is what reading a property of \<^verbatim>\<open>undefined\<close> throws.
\<close>

datatype error = Error string | TypeError

section \<open>The type graph of the TypeScript compiler API, as far as \<^verbatim>\<open>types.ts\<close> reads it\<close>

text \<open>
  The members of the enums \<^verbatim>\<open>ts.TypeFlags\<close> and \<^verbatim>\<open>ts.ObjectFlags\<close> that \<^verbatim>\<open>types.ts\<close> tests,
  with the values the compiler API declares for them (each is a single bit).
\<close>

definition TypeFlags_StringLiteral :: flagset where "TypeFlags_StringLiteral = 128"
definition TypeFlags_NumberLiteral :: flagset where "TypeFlags_NumberLiteral = 256"
definition TypeFlags_BooleanLiteral :: flagset where "TypeFlags_BooleanLiteral = 512"
definition TypeFlags_EnumLiteral :: flagset where "TypeFlags_EnumLiteral = 1024"
definition TypeFlags_Undefined :: flagset where "TypeFlags_Undefined = 32768"
definition TypeFlags_Object :: flagset where "TypeFlags_Object = 524288"
definition TypeFlags_Union :: flagset where "TypeFlags_Union = 1048576"

definition ObjectFlags_Reference :: flagset where "ObjectFlags_Reference = 4"
definition ObjectFlags_Tuple :: flagset where "ObjectFlags_Tuple = 8"

text \<open>
  \<^verbatim>\<open>ts.SyntaxKind\<close>: the four kinds \<^verbatim>\<open>isTranspilable\<close> asks for, and every other kind under
  its numeric code.
\<close>

datatype SyntaxKind =
    InterfaceDeclaration
  | TypeAliasDeclaration
  | EnumDeclaration
  | ClassDeclaration
  | OtherSyntaxKind nat

record Node =
  kind :: SyntaxKind

text \<open>The guards of the compiler API compare the kind of the node.\<close>

definition isInterfaceDeclaration :: "Node \<Rightarrow> bool" where
  "isInterfaceDeclaration node = (kind node = InterfaceDeclaration)"

definition isTypeAliasDeclaration :: "Node \<Rightarrow> bool" where
  "isTypeAliasDeclaration node = (kind node = TypeAliasDeclaration)"

definition isEnumDeclaration :: "Node \<Rightarrow> bool" where
  "isEnumDeclaration node = (kind node = EnumDeclaration)"

definition isClassDeclaration :: "Node \<Rightarrow> bool" where
  "isClassDeclaration node = (kind node = ClassDeclaration)"

text \<open>
  The value of a literal type: \<^verbatim>\<open>string | number\<close>, or a \<^verbatim>\<open>ts.PseudoBigInt\<close> (sign and
  decimal digits).
\<close>

datatype LiteralValue =
    StringValue string
  | NumberValue real
  | PseudoBigInt bool string

record Symbol =
  escapedName :: string

text \<open>
  A \<^verbatim>\<open>ts.Type\<close> with the attributes the predicates read. An attribute that may be
  \<^verbatim>\<open>undefined\<close> is an option. \<open>objectFlags\<close> exists on object types only; on any other
  type the read gives \<^verbatim>\<open>undefined\<close>, which \<^verbatim>\<open>&\<close> takes for 0, so it is 0 there.
  \<open>target\<close> is the generic type a \<^verbatim>\<open>ts.TypeReference\<close> instantiates.
\<close>

datatype Type =
  Type (flags: flagset) (objectFlags: flagset) (symbol: "Symbol option")
       (target: "Type option") (value_of: "LiteralValue option")
       (intrinsicName: "string option")

section \<open>\<^verbatim>\<open>types.ts\<close>\<close>

definition isTranspilable :: "Node \<Rightarrow> bool" where
  "isTranspilable node =
     (isInterfaceDeclaration node \<or>
      isTypeAliasDeclaration node \<or>
      isEnumDeclaration node \<or>
      isClassDeclaration node)"

definition isLiteral :: "Type \<Rightarrow> bool" where
  "isLiteral type =
     (let check =
            js_or (js_or (flags type AND TypeFlags_StringLiteral)
                         (flags type AND TypeFlags_NumberLiteral))
                  (flags type AND TypeFlags_BooleanLiteral)
      in Boolean check)"

definition isDefined :: "Type \<Rightarrow> bool" where
  "isDefined type = (\<not> Boolean (flags type AND TypeFlags_Undefined))"

definition isLiteralTrue :: "Type \<Rightarrow> bool" where
  "isLiteralTrue type = (value_of type = None \<and> intrinsicName type = Some ''true'')"

definition isLiteralFalse :: "Type \<Rightarrow> bool" where
  "isLiteralFalse type = (value_of type = None \<and> intrinsicName type = Some ''false'')"

definition isUnionBoolean :: "Type list \<Rightarrow> bool" where
  "isUnionBoolean types =
     (if length types \<noteq> 2 then False
      else let typeA = types ! 0; typeB = types ! 1
           in if \<not> isLiteral typeA \<or> \<not> isLiteral typeB then False
              else (isLiteralTrue typeA \<and> isLiteralFalse typeB) \<or>
                   (isLiteralTrue typeB \<and> isLiteralFalse typeA))"

definition isObject :: "Type \<Rightarrow> bool" where
  "isObject type = Boolean (flags type AND TypeFlags_Object)"

definition isReference :: "Type \<Rightarrow> bool" where
  "isReference type = Boolean (objectFlags type AND ObjectFlags_Reference)"


text \<open>
  \<^verbatim>\<open>type.target.objectFlags\<close> is evaluated only when the two guards before it hold; it
  throws a \<open>TypeError\<close> when the node has no target.
\<close>

definition isTuple :: "Type \<Rightarrow> error + bool" where
  "isTuple type =
     (if \<not> isObject type then Inr False
      else if \<not> isReference type then Inr False
      else case target type of
             None \<Rightarrow> Inl TypeError
           | Some g \<Rightarrow> Inr (Boolean (objectFlags g AND ObjectFlags_Tuple)))"


definition isEnum :: "Type \<Rightarrow> bool" where
  "isEnum type =
     Boolean (js_and (flags type AND TypeFlags_EnumLiteral) (flags type AND TypeFlags_Union))"

definition isUndefined :: "Type \<Rightarrow> bool" where
  "isUndefined type = Boolean (flags type AND TypeFlags_Undefined)"

definition isUnion :: "Type \<Rightarrow> bool" where
  "isUnion type = Boolean (flags type AND TypeFlags_Union)"

section \<open>\<^verbatim>\<open>modules/jsonSchema.ts\<close>\<close>

datatype JsonSchemaLiteral =
    LiteralString string
  | LiteralNumber real
  | LiteralBoolean bool

text \<open>
  \<^verbatim>\<open>JsonSchemaComplex\<close> has eight optional keys. \<open>items\<close> is one schema or an array of
  schemas. \<open>properties\<close> is an object used as a dictionary: it is kept as the list of its
  own properties, in the order in which JavaScript enumerates them.
\<close>

datatype JsonSchema =
    Literal JsonSchemaLiteral
  | JsonSchemaComplex
      (additionalProperties: "bool option")
      (allOf: "JsonSchema list option")
      (description: "string option")
      (enum_of: "JsonSchemaLiteral list option")
      (items: "Items option")
      (properties: "(string \<times> JsonSchema) list option")
      (required: "string list option")
      (type_of: "string option")
and Items =
    ItemsSchema JsonSchema
  | ItemsArray "JsonSchema list"

text \<open>The object literal \<^verbatim>\<open>{ type: t }\<close>.\<close>

abbreviation typeOnly :: "string \<Rightarrow> JsonSchema" where
  "typeOnly t \<equiv> JsonSchemaComplex None None None None None None None (Some t)"

definition buildAny :: JsonSchema where
  "buildAny = JsonSchemaComplex None None None None None None None None"

definition buildPrimitive :: "string \<Rightarrow> error + JsonSchema" where
  "buildPrimitive type =
     (if type = ''any'' then Inr buildAny
      else if type = ''void'' then Inr (typeOnly ''undefined'')
      else if type = ''null'' then Inr (typeOnly ''null'')
      else if type = ''undefined'' then Inr (typeOnly ''undefined'')
      else if type = ''never'' then
        Inr (JsonSchemaComplex None (Some [typeOnly ''string'', typeOnly ''number''])
                     (Some ''This is a never type'') None None None None None)
      else if type = ''string'' then Inr (typeOnly ''string'')
      else if type = ''number'' then Inr (typeOnly ''number'')
      else if type = ''boolean'' then Inr (typeOnly ''boolean'')
      else Inl (Error ''Unsupported type please open an issue on github''))"

definition buildArray :: "JsonSchema \<Rightarrow> JsonSchema" where
  "buildArray resolvedType =
     JsonSchemaComplex None None None None (Some (ItemsSchema resolvedType)) None None (Some ''array'')"

definition buildTuple :: "JsonSchema list \<Rightarrow> JsonSchema" where
  "buildTuple resolvedTypes =
     JsonSchemaComplex None None None None (Some (ItemsArray resolvedTypes)) None None (Some ''array'')"

subsection \<open>Assignment to a property of an ordinary object\<close>

text \<open>
  \<^verbatim>\<open>buildObject\<close> fills the object \<^verbatim>\<open>schema.properties\<close>, created by the literal \<^verbatim>\<open>{}\<close>,
  with \<^verbatim>\<open>schema.properties[name] = resolvedType\<close>. What the assignment does to the own
  properties of such an object, in their enumeration order (array-index keys in ascending
  numeric order first, then the other string keys in the order of their creation):
  \<^item> the key \<^verbatim>\<open>__proto__\<close> is taken by the setter inherited from \<^verbatim>\<open>Object.prototype\<close>,
    and no own property is created;
  \<^item> a key that is already there keeps its place and takes the new value;
  \<^item> a new array-index key (the canonical decimal string of an integer from 0 to
    \<open>2^32 - 2\<close>) goes to its place among the array-index keys;
  \<^item> any other new key goes to the end.
\<close>

definition isDigit :: "char \<Rightarrow> bool" where
  "isDigit c = (48 \<le> (of_char c :: nat) \<and> (of_char c :: nat) \<le> 57)"

definition decimalValue :: "string \<Rightarrow> nat" where
  "decimalValue s = foldl (\<lambda>n c. 10 * n + (of_char c - 48)) 0 s"

definition isArrayIndex :: "string \<Rightarrow> bool" where
  "isArrayIndex s =
     (s \<noteq> [] \<and> list_all isDigit s \<and> (s = ''0'' \<or> hd s \<noteq> CHR ''0'') \<and>
      decimalValue s < 2 ^ 32 - 1)"

fun insertArrayIndex :: "string \<Rightarrow> 'v \<Rightarrow> (string \<times> 'v) list \<Rightarrow> (string \<times> 'v) list" where
  "insertArrayIndex key v [] = [(key, v)]"
| "insertArrayIndex key v ((k, x) # rest) =
     (if isArrayIndex k \<and> decimalValue k < decimalValue key
      then (k, x) # insertArrayIndex key v rest
      else (key, v) # (k, x) # rest)"

definition setProperty :: "(string \<times> 'v) list \<Rightarrow> string \<Rightarrow> 'v \<Rightarrow> (string \<times> 'v) list" where
  "setProperty obj key v =
     (if key = ''__proto__'' then obj
      else if key \<in> fst ` set obj then map (\<lambda>(k, x). if k = key then (k, v) else (k, x)) obj
      else if isArrayIndex key then insertArrayIndex key v obj
      else obj @ [(key, v)])"

subsection \<open>\<^verbatim>\<open>buildObject\<close>\<close>

record Property =
  isOptional :: bool
  name :: string
  resolvedType :: JsonSchema

text \<open>
  The body of the \<^verbatim>\<open>forEach\<close> callback, on the two parts of \<^verbatim>\<open>schema\<close> it changes: the
  array \<^verbatim>\<open>schema.required\<close> and the object \<^verbatim>\<open>schema.properties\<close>.
\<close>

fun buildObject_forEach ::
  "Property list \<Rightarrow> string list \<times> (string \<times> JsonSchema) list \<Rightarrow>
   string list \<times> (string \<times> JsonSchema) list" where
  "buildObject_forEach [] schema = schema"
| "buildObject_forEach (p # ps) (req, props) =
     buildObject_forEach ps
       (if \<not> isOptional p then req @ [name p] else req,
        setProperty props (name p) (resolvedType p))"

definition buildObject :: "Property list \<Rightarrow> JsonSchema" where
  "buildObject props =
     (case buildObject_forEach props ([], []) of
        (req, ps) \<Rightarrow>
          JsonSchemaComplex (Some False) None None None None (Some ps)
                  (if length req = 0 then None else Some req)
                  (Some ''object''))"

section \<open>The union branch of the resolver\<close>

text \<open>
  Modelled from the spec: the Type Graph Resolver is not among the source files. Its
  union resolution is described as: filter the constituents to the defined types; if
  exactly two remain and they form the boolean-union pattern, resolve to the
  primitive-boolean fragment; otherwise resolve to an enum-style or allOf-style
  combination. The combination is left open there, and is the parameter \<open>otherwise\<close>.
\<close>

definition resolveUnion ::
  "(Type list \<Rightarrow> error + JsonSchema) \<Rightarrow> Type list \<Rightarrow> error + JsonSchema" where
  "resolveUnion otherwise types =
     (let defined = filter isDefined types
      in if isUnionBoolean defined then buildPrimitive ''boolean'' else otherwise defined)"

section \<open>Properties of the classifier predicates\<close>

subsection \<open>Truthiness of the flag tests\<close>

lemma Boolean_js_or: "Boolean (js_or a b) = (Boolean a \<or> Boolean b)"
  by (simp add: Boolean_def js_or_def)

lemma Boolean_js_and: "Boolean (js_and a b) = (Boolean a \<and> Boolean b)"
  by (simp add: Boolean_def js_and_def)

lemma and_or_eq_0_iff:
  "(x AND (a OR b) = 0) = (x AND a = 0 \<and> x AND b = 0)" for x a b :: flagset
  by (simp add: bit.conj_disj_distrib or_eq_0_iff)

lemma isLiteral_mask:
  "isLiteral t =
     (flags t AND
        (TypeFlags_StringLiteral OR TypeFlags_NumberLiteral OR TypeFlags_BooleanLiteral) \<noteq> 0)"
proof -
  have "isLiteral t =
      (Boolean (flags t AND TypeFlags_StringLiteral) \<or>
       Boolean (flags t AND TypeFlags_NumberLiteral) \<or>
       Boolean (flags t AND TypeFlags_BooleanLiteral))"
    by (simp only: isLiteral_def Let_def Boolean_js_or disj_assoc)
  then show ?thesis
    by (simp only: Boolean_def and_or_eq_0_iff de_Morgan_conj)
qed

lemma isUnionBoolean_pair:
  "isUnionBoolean [a, b] =
     (isLiteral a \<and> isLiteral b \<and>
      ((isLiteralTrue a \<and> isLiteralFalse b) \<or> (isLiteralTrue b \<and> isLiteralFalse a)))"
  by (auto simp add: isUnionBoolean_def)

lemma isUnionBoolean_length: "isUnionBoolean ts \<Longrightarrow> length ts = 2"
  by (simp add: isUnionBoolean_def split: if_splits)

subsection \<open>Declarations that are transpiled\<close>

text \<open>
  C7. \<open>isTranspilable\<close> is true iff the node is an interface declaration, a type alias
  declaration, an enum declaration or a class declaration; a node of any other kind is
  rejected.
\<close>

theorem isTranspilable_iff:
  "isTranspilable node =
     (kind node = InterfaceDeclaration \<or> kind node = TypeAliasDeclaration \<or>
      kind node = EnumDeclaration \<or> kind node = ClassDeclaration) \<and>
   (\<forall>n. \<not> isTranspilable \<lparr>kind = OtherSyntaxKind n\<rparr>)"
  by (simp add: isTranspilable_def isInterfaceDeclaration_def isTypeAliasDeclaration_def
      isEnumDeclaration_def isClassDeclaration_def)

subsection \<open>The boolean union\<close>

text \<open>
  C1. For two constituents \<open>a\<close> and \<open>b\<close>, \<open>isUnionBoolean\<close> is true iff both are literals
  (their flags include string-literal, number-literal or boolean-literal) and one of them
  is the synthetic true literal (no value, intrinsic name \<open>true\<close>) and the other the
  synthetic false literal, in either order. When both are defined (they pass the filter
  of undefined) such a pair resolves to exactly \<^verbatim>\<open>{type: "boolean"}\<close>, a fragment without
  an \<open>enum\<close> key. A list whose length is not 2 is never a boolean union.
\<close>

theorem isUnionBoolean_collapse:
  "isUnionBoolean [a, b] =
     (flags a AND
        (TypeFlags_StringLiteral OR TypeFlags_NumberLiteral OR TypeFlags_BooleanLiteral) \<noteq> 0 \<and>
      flags b AND
        (TypeFlags_StringLiteral OR TypeFlags_NumberLiteral OR TypeFlags_BooleanLiteral) \<noteq> 0 \<and>
      ((value_of a = None \<and> intrinsicName a = Some ''true'' \<and>
        value_of b = None \<and> intrinsicName b = Some ''false'') \<or>
       (value_of b = None \<and> intrinsicName b = Some ''true'' \<and>
        value_of a = None \<and> intrinsicName a = Some ''false''))) \<and>
   (isDefined a \<and> isDefined b \<and> isUnionBoolean [a, b] \<longrightarrow>
      resolveUnion otherwise [a, b] =
        Inr (JsonSchemaComplex None None None None None None None (Some ''boolean'')) \<and>
      (\<forall>s. resolveUnion otherwise [a, b] = Inr s \<longrightarrow> enum_of s = None)) \<and>
   (length ts \<noteq> 2 \<longrightarrow> \<not> isUnionBoolean ts)"
proof (intro conjI impI)
  show "isUnionBoolean [a, b] =
     (flags a AND
        (TypeFlags_StringLiteral OR TypeFlags_NumberLiteral OR TypeFlags_BooleanLiteral) \<noteq> 0 \<and>
      flags b AND
        (TypeFlags_StringLiteral OR TypeFlags_NumberLiteral OR TypeFlags_BooleanLiteral) \<noteq> 0 \<and>
      ((value_of a = None \<and> intrinsicName a = Some ''true'' \<and>
        value_of b = None \<and> intrinsicName b = Some ''false'') \<or>
       (value_of b = None \<and> intrinsicName b = Some ''true'' \<and>
        value_of a = None \<and> intrinsicName a = Some ''false'')))"
    unfolding isUnionBoolean_pair isLiteral_mask isLiteralTrue_def isLiteralFalse_def
    by blast
next
  assume h: "isDefined a \<and> isDefined b \<and> isUnionBoolean [a, b]"
  then have r: "resolveUnion otherwise [a, b] = buildPrimitive ''boolean''"
    by (simp add: resolveUnion_def)
  show "resolveUnion otherwise [a, b] =
      Inr (JsonSchemaComplex None None None None None None None (Some ''boolean''))"
    by (simp add: r buildPrimitive_def)
  show "\<forall>s. resolveUnion otherwise [a, b] = Inr s \<longrightarrow> enum_of s = None"
    by (auto simp add: r buildPrimitive_def)
next
  assume "length ts \<noteq> 2"
  then show "\<not> isUnionBoolean ts"
    using isUnionBoolean_length by blast
qed

theorem isUnionBoolean_collapse_witness:
  "isUnionBoolean
     [Type TypeFlags_BooleanLiteral 0 None None None (Some ''true''),
      Type TypeFlags_BooleanLiteral 0 None None None (Some ''false'')] \<and>
   isUnionBoolean
     [Type TypeFlags_BooleanLiteral 0 None None None (Some ''false''),
      Type TypeFlags_BooleanLiteral 0 None None None (Some ''true'')] \<and>
   resolveUnion (\<lambda>ts. Inr buildAny)
     [Type TypeFlags_BooleanLiteral 0 None None None (Some ''true''),
      Type TypeFlags_BooleanLiteral 0 None None None (Some ''false'')] =
     Inr (JsonSchemaComplex None None None None None None None (Some ''boolean'')) \<and>
   \<not> isUnionBoolean [Type TypeFlags_BooleanLiteral 0 None None None (Some ''true'')]"
proof -
  let ?T = "Type TypeFlags_BooleanLiteral 0 None None None (Some ''true'')"
  let ?F = "Type TypeFlags_BooleanLiteral 0 None None None (Some ''false'')"
  have d: "isDefined ?T" "isDefined ?F"
    by (simp_all add: isDefined_def Boolean_def TypeFlags_BooleanLiteral_def
        TypeFlags_Undefined_def)
  have m: "TypeFlags_BooleanLiteral AND
      (TypeFlags_StringLiteral OR TypeFlags_NumberLiteral OR TypeFlags_BooleanLiteral) \<noteq> 0"
    by (simp add: TypeFlags_StringLiteral_def TypeFlags_NumberLiteral_def
        TypeFlags_BooleanLiteral_def)
  have tf: "isUnionBoolean [?T, ?F]"
    using isUnionBoolean_collapse [of ?T ?F "\<lambda>ts. Inr buildAny" "[?T]"] m by simp
  have ft: "isUnionBoolean [?F, ?T]"
    using isUnionBoolean_collapse [of ?F ?T "\<lambda>ts. Inr buildAny" "[?T]"] m by simp
  have one: "\<not> isUnionBoolean [?T]"
    using isUnionBoolean_collapse [of ?T ?F "\<lambda>ts. Inr buildAny" "[?T]"] by simp
  have r: "resolveUnion (\<lambda>ts. Inr buildAny) [?T, ?F] =
      Inr (JsonSchemaComplex None None None None None None None (Some ''boolean''))"
    using isUnionBoolean_collapse [of ?T ?F "\<lambda>ts. Inr buildAny" "[?T]"] d tf by blast
  from tf ft r one show ?thesis by blast
qed

subsection \<open>Arrays and tuples among the references\<close>




text \<open>
  \<open>isTuple\<close> itself does not read the symbol: the invariant is what keeps the two
  predicates apart.
\<close>

lemma isTuple_ignores_symbol:
  "isTuple (Type f oflags s tgt v nm) = isTuple (Type f oflags s' tgt v nm)"
  by (simp add: isTuple_def isObject_def isReference_def)



subsection \<open>Defined and undefined\<close>

text \<open>
  C8. \<open>isDefined\<close> is the negation of \<open>isUndefined\<close>; both test the Undefined bit only, so a
  node whose flags hold the Undefined bit together with any other bits is undefined and
  not defined.
\<close>

theorem isDefined_not_isUndefined:
  "isDefined t = (\<not> isUndefined t) \<and>
   isUndefined t = (flags t AND TypeFlags_Undefined \<noteq> 0) \<and>
   (\<forall>other oflags sym tgt v nm.
      \<not> isDefined (Type (TypeFlags_Undefined OR other) oflags sym tgt v nm) \<and>
      isUndefined (Type (TypeFlags_Undefined OR other) oflags sym tgt v nm))"
  by (simp add: isDefined_def isUndefined_def Boolean_def TypeFlags_Undefined_def
      bit.conj_disj_distrib2)

subsection \<open>Enums are unions\<close>

text \<open>
  C9. \<open>isEnum\<close> implies \<open>isUnion\<close>: \<open>isEnum\<close> asks for the EnumLiteral and the Union bit,
  \<open>isUnion\<close> for the Union bit only. The two predicates are therefore not mutually
  exclusive: an enum node satisfies both, and a node with the Union bit alone is a union
  and not an enum.
\<close>

theorem isEnum_isUnion:
  "(isEnum t \<longrightarrow> isUnion t) \<and>
   isEnum t = (flags t AND TypeFlags_EnumLiteral \<noteq> 0 \<and> flags t AND TypeFlags_Union \<noteq> 0) \<and>
   isUnion t = (flags t AND TypeFlags_Union \<noteq> 0) \<and>
   (\<exists>u. isEnum u \<and> isUnion u) \<and>
   (\<exists>u. isUnion u \<and> \<not> isEnum u)"
proof -
  have e: "isEnum u =
      (Boolean (flags u AND TypeFlags_EnumLiteral) \<and> Boolean (flags u AND TypeFlags_Union))"
    for u
    by (simp only: isEnum_def Boolean_js_and)
  have u: "isUnion u = Boolean (flags u AND TypeFlags_Union)" for u
    by (simp only: isUnion_def)
  have both: "isEnum (Type (TypeFlags_EnumLiteral OR TypeFlags_Union) 0 None None None None) \<and>
      isUnion (Type (TypeFlags_EnumLiteral OR TypeFlags_Union) 0 None None None None)"
    by (simp add: e u Boolean_def TypeFlags_EnumLiteral_def TypeFlags_Union_def)
  have only: "isUnion (Type TypeFlags_Union 0 None None None None) \<and>
      \<not> isEnum (Type TypeFlags_Union 0 None None None None)"
    by (simp add: e u Boolean_def TypeFlags_EnumLiteral_def TypeFlags_Union_def)
  have "(isEnum t \<longrightarrow> isUnion t) \<and>
      isEnum t = (flags t AND TypeFlags_EnumLiteral \<noteq> 0 \<and> flags t AND TypeFlags_Union \<noteq> 0) \<and>
      isUnion t = (flags t AND TypeFlags_Union \<noteq> 0)"
    by (simp add: e u Boolean_def)
  with both only show ?thesis
    by blast
qed

theorem isEnum_isUnion_witness:
  "isEnum (Type (TypeFlags_EnumLiteral OR TypeFlags_Union) 0 None None None None) \<and>
   isUnion (Type (TypeFlags_EnumLiteral OR TypeFlags_Union) 0 None None None None)"
proof -
  let ?t = "Type (TypeFlags_EnumLiteral OR TypeFlags_Union) 0 None None None None"
  have e: "isEnum ?t"
    by (simp add: isEnum_def js_and_def Boolean_def TypeFlags_EnumLiteral_def
        TypeFlags_Union_def)
  with isEnum_isUnion [of ?t] show ?thesis by blast
qed

section \<open>Properties of the schema builder\<close>

subsection \<open>The fixed mapping of primitives\<close>

text \<open>
  C2. \<open>buildPrimitive\<close> maps \<open>any\<close> to \<^verbatim>\<open>{}\<close>, \<open>void\<close> and \<open>undefined\<close> to
  \<^verbatim>\<open>{type: "undefined"}\<close>, \<open>null\<close>, \<open>string\<close>, \<open>number\<close> and \<open>boolean\<close> to the fragment with
  that type, and \<open>never\<close> to the description \<open>This is a never type\<close> with
  \<^verbatim>\<open>allOf: [{type: "string"}, {type: "number"}]\<close>. For every other tag it fails with an
  error and returns no fragment.
\<close>

theorem buildPrimitive_mapping:
  "buildPrimitive ''any'' = Inr (JsonSchemaComplex None None None None None None None None) \<and>
   buildPrimitive ''void'' =
     Inr (JsonSchemaComplex None None None None None None None (Some ''undefined'')) \<and>
   buildPrimitive ''undefined'' =
     Inr (JsonSchemaComplex None None None None None None None (Some ''undefined'')) \<and>
   buildPrimitive ''null'' =
     Inr (JsonSchemaComplex None None None None None None None (Some ''null'')) \<and>
   buildPrimitive ''string'' =
     Inr (JsonSchemaComplex None None None None None None None (Some ''string'')) \<and>
   buildPrimitive ''number'' =
     Inr (JsonSchemaComplex None None None None None None None (Some ''number'')) \<and>
   buildPrimitive ''boolean'' =
     Inr (JsonSchemaComplex None None None None None None None (Some ''boolean'')) \<and>
   buildPrimitive ''never'' =
     Inr (JsonSchemaComplex None
            (Some [JsonSchemaComplex None None None None None None None (Some ''string''),
                   JsonSchemaComplex None None None None None None None (Some ''number'')])
            (Some ''This is a never type'') None None None None None) \<and>
   (t \<notin> {''any'', ''void'', ''undefined'', ''null'', ''string'', ''number'', ''boolean'',
          ''never''} \<longrightarrow>
      (\<exists>e. buildPrimitive t = Inl e) \<and> (\<forall>s. buildPrimitive t \<noteq> Inr s))"
  by (simp add: buildPrimitive_def buildAny_def)

theorem buildPrimitive_mapping_witness:
  "''symbol'' \<notin> {''any'', ''void'', ''undefined'', ''null'', ''string'', ''number'',
                  ''boolean'', ''never''} \<and>
   (\<exists>e. buildPrimitive ''symbol'' = Inl e) \<and>
   buildPrimitive ''string'' =
     Inr (JsonSchemaComplex None None None None None None None (Some ''string''))"
  using buildPrimitive_mapping [of "''symbol''"] by simp

subsection \<open>The error for an unmapped primitive\<close>

text \<open>
  C5, as the claim states it, fails: for the unmapped tag \<open>bigint\<close> the error is
  \<open>Unsupported type please open an issue on github\<close>, in which \<open>bigint\<close> does not occur.
\<close>

theorem buildPrimitive_error_counterexample:
  "buildPrimitive ''bigint'' = Inl (Error ''Unsupported type please open an issue on github'') \<and>
   \<not> sublist ''bigint'' ''Unsupported type please open an issue on github''"
  by (simp add: buildPrimitive_def sublist_Cons_right)

text \<open>
  C5, amended. Whenever a primitive kind with no mapping reaches \<open>buildPrimitive\<close>, it fails
  with the error \<open>Unsupported type please open an issue on github\<close>: one fixed message, the
  same for every unmapped tag, so the tag is not part of what is reported.
\<close>

theorem buildPrimitive_error_fixed:
  "(t \<notin> {''any'', ''void'', ''undefined'', ''null'', ''string'', ''number'', ''boolean'',
          ''never''} \<longrightarrow>
      buildPrimitive t = Inl (Error ''Unsupported type please open an issue on github'')) \<and>
   (t \<notin> {''any'', ''void'', ''undefined'', ''null'', ''string'', ''number'', ''boolean'',
          ''never''} \<and>
    u \<notin> {''any'', ''void'', ''undefined'', ''null'', ''string'', ''number'', ''boolean'',
          ''never''} \<longrightarrow>
      buildPrimitive t = buildPrimitive u)"
  by (simp add: buildPrimitive_def)

theorem buildPrimitive_error_fixed_witness:
  "buildPrimitive ''bigint'' = Inl (Error ''Unsupported type please open an issue on github'') \<and>
   buildPrimitive ''bigint'' = buildPrimitive ''symbol''"
proof -
  have n: "''bigint'' \<notin> {''any'', ''void'', ''undefined'', ''null'', ''string'', ''number'',
      ''boolean'', ''never''}"
    "''symbol'' \<notin> {''any'', ''void'', ''undefined'', ''null'', ''string'', ''number'',
      ''boolean'', ''never''}"
    by simp_all
  with buildPrimitive_error_fixed [of "''bigint''" "''symbol''"] show ?thesis
    by blast
qed

subsection \<open>Arrays and tuples\<close>

text \<open>
  C6. \<open>buildTuple\<close> returns \<^verbatim>\<open>{type: "array"}\<close> whose \<open>items\<close> is the sequence of the element
  fragments in input order; \<open>buildArray\<close> returns \<^verbatim>\<open>{type: "array"}\<close> whose \<open>items\<close> is the
  one element fragment, which is not a one-element sequence. The tuple
  \<^verbatim>\<open>[string, number, boolean]\<close> and the array of \<open>string\<close> give the fragments of the spec.
\<close>

theorem buildTuple_buildArray:
  "buildTuple fs =
     JsonSchemaComplex None None None None (Some (ItemsArray fs)) None None (Some ''array'') \<and>
   buildArray f =
     JsonSchemaComplex None None None None (Some (ItemsSchema f)) None None (Some ''array'') \<and>
   buildArray f \<noteq> buildTuple [f] \<and>
   buildTuple
     [JsonSchemaComplex None None None None None None None (Some ''string''),
      JsonSchemaComplex None None None None None None None (Some ''number''),
      JsonSchemaComplex None None None None None None None (Some ''boolean'')] =
     JsonSchemaComplex None None None None
       (Some (ItemsArray
          [JsonSchemaComplex None None None None None None None (Some ''string''),
           JsonSchemaComplex None None None None None None None (Some ''number''),
           JsonSchemaComplex None None None None None None None (Some ''boolean'')]))
       None None (Some ''array'') \<and>
   buildArray (JsonSchemaComplex None None None None None None None (Some ''string'')) =
     JsonSchemaComplex None None None None
       (Some (ItemsSchema
          (JsonSchemaComplex None None None None None None None (Some ''string''))))
       None None (Some ''array'')"
  by (simp add: buildTuple_def buildArray_def)

subsection \<open>Assignment to a property, as a map\<close>













text \<open>An array index goes before the other keys, and \<^verbatim>\<open>__proto__\<close> leaves no entry.\<close>

lemma setProperty_array_index_example:
  "setProperty [(''b'', x)] ''1'' y = [(''1'', y), (''b'', x)]"
  by (simp add: setProperty_def isArrayIndex_def isDigit_def decimalValue_def)

lemma setProperty_proto_example:
  "setProperty [(''b'', x)] ''__proto__'' y = [(''b'', x)]"
  by (simp add: setProperty_def)


subsection \<open>The loop of \<open>buildObject\<close>\<close>






subsection \<open>The order of the keys\<close>







subsection \<open>The object fragment\<close>




subsection \<open>Members of the same name\<close>

text \<open>
  C10. There is an input with two non-optional members of the same name for which
  \<open>required\<close> holds the name twice and \<open>properties\<close> holds a single entry for it, with the
  fragment of the later member: \<open>buildObject\<close> does not deduplicate member names.
\<close>

theorem buildObject_no_deduplication:
  "buildObject
     [\<lparr>isOptional = False, name = ''id'', resolvedType = typeOnly ''string''\<rparr>,
      \<lparr>isOptional = False, name = ''id'', resolvedType = typeOnly ''number''\<rparr>] =
     JsonSchemaComplex (Some False) None None None None
       (Some [(''id'', typeOnly ''number'')]) (Some [''id'', ''id'']) (Some ''object'')"
  by (simp add: buildObject_def setProperty_def isArrayIndex_def isDigit_def)

end
